theory Spec2Isabelle
  imports Main "HOL-Library.Char_ord" "HOL-Library.List_Lexorder"
begin

section \<open>Text and cells\<close>

text \<open>
  The program is \<^verbatim>\<open>src/.actor/src/main.py\<close>. Its texts are Python \<^verbatim>\<open>str\<close> values; they are
  modelled as \<^typ>\<open>string\<close>, one \<^typ>\<open>char\<close> per code point below 256. A cell of a row is
  either \<^verbatim>\<open>None\<close> or a text, so a cell is a \<^typ>\<open>string option\<close>; a row
  (\<^verbatim>\<open>Dict[str, Any]\<close>) maps a header to a cell, and a header that is not in the row is
  \<^term>\<open>None\<close> of the map.
\<close>

type_synonym cell = "string option"
type_synonym row = "string \<rightharpoonup> cell"

text \<open>\<^verbatim>\<open>str.isspace\<close> on the code points below 256.\<close>

definition isspace :: "char \<Rightarrow> bool" where
  "isspace c = (c \<in> set [CHR 0x09, CHR 0x0A, CHR 0x0B, CHR 0x0C, CHR 0x0D,
       CHR 0x1C, CHR 0x1D, CHR 0x1E, CHR 0x1F, CHR 0x20, CHR 0x85, CHR 0xA0])"

definition lstrip :: "string \<Rightarrow> string" where
  "lstrip s = dropWhile isspace s"

definition rstrip :: "string \<Rightarrow> string" where
  "rstrip s = rev (dropWhile isspace (rev s))"

definition strip :: "string \<Rightarrow> string" where
  "strip s = rstrip (lstrip s)"

text \<open>\<^verbatim>\<open>str.upper\<close> and \<^verbatim>\<open>str.lower\<close>, on the ASCII letters.\<close>

definition upper_char :: "char \<Rightarrow> char" where
  "upper_char c =
     (case map_of (zip ''abcdefghijklmnopqrstuvwxyz'' ''ABCDEFGHIJKLMNOPQRSTUVWXYZ'') c of
        Some d \<Rightarrow> d | None \<Rightarrow> c)"

definition lower_char :: "char \<Rightarrow> char" where
  "lower_char c =
     (case map_of (zip ''ABCDEFGHIJKLMNOPQRSTUVWXYZ'' ''abcdefghijklmnopqrstuvwxyz'') c of
        Some d \<Rightarrow> d | None \<Rightarrow> c)"

definition upper :: "string \<Rightarrow> string" where
  "upper s = map upper_char s"

definition lower :: "string \<Rightarrow> string" where
  "lower s = map lower_char s"

text \<open>\<^verbatim>\<open>row.get(k)\<close>: \<^verbatim>\<open>None\<close> for a header that is absent.\<close>

definition get :: "row \<Rightarrow> string \<Rightarrow> cell" where
  "get r k = (case r k of None \<Rightarrow> None | Some v \<Rightarrow> v)"

text \<open>Python's \<^verbatim>\<open>a or b\<close> on cells: \<^verbatim>\<open>None\<close> and the empty text are false.\<close>

definition truthy :: "cell \<Rightarrow> bool" where
  "truthy v = (case v of None \<Rightarrow> False | Some s \<Rightarrow> s \<noteq> [])"

definition py_or :: "cell \<Rightarrow> cell \<Rightarrow> cell" where
  "py_or a b = (if truthy a then a else b)"

definition norm :: "cell \<Rightarrow> string" where
  "norm v = (case v of None \<Rightarrow> [] | Some s \<Rightarrow> strip s)"

section \<open>Key extractors\<close>

definition ledger_invoice_key :: "row \<Rightarrow> string" where
  "ledger_invoice_key r =
     upper (norm (py_or (py_or (get r ''Invoice Number'') (get r ''Invoice number''))
                        (get r ''Invoice'')))"

definition invoice_guid_key :: "row \<Rightarrow> string" where
  "invoice_guid_key r =
     lower (norm (py_or (py_or (get r ''Invoice ID'') (get r ''InvoiceId''))
                        (get r ''Invoice_GUID'')))"

definition invoice_number_key :: "row \<Rightarrow> string" where
  "invoice_number_key r =
     upper (norm (py_or (py_or (py_or (get r ''Xero number'') (get r ''Invoice Number''))
                               (get r ''Invoice number''))
                        (get r ''Invoice'')))"

definition manifest_guid_key :: "row \<Rightarrow> string" where
  "manifest_guid_key r =
     lower (norm (py_or (py_or (get r ''Invoice ID'') (get r ''InvoiceId''))
                        (get r ''Invoice_GUID'')))"

definition manifest_pdf_path :: "row \<Rightarrow> string" where
  "manifest_pdf_path r =
     norm (py_or (py_or (py_or (get r ''PDF_Path'') (get r ''PdfPath''))
                        (get r ''FilePath''))
                 (get r ''Path''))"

text \<open>
  The extractor as the specification words it: the cell of the first candidate header that
  is present with a non-empty value, normalised and case-folded; the empty text when no
  candidate has one.
\<close>

fun first_nonempty :: "row \<Rightarrow> string list \<Rightarrow> string option" where
  "first_nonempty r [] = None"
| "first_nonempty r (h # hs) =
     (case r h of
        Some (Some v) \<Rightarrow> (if v \<noteq> [] then Some v else first_nonempty r hs)
      | _ \<Rightarrow> first_nonempty r hs)"

definition spec_extract :: "(string \<Rightarrow> string) \<Rightarrow> string list \<Rightarrow> row \<Rightarrow> string" where
  "spec_extract fold_case hs r =
     (case first_nonempty r hs of None \<Rightarrow> [] | Some v \<Rightarrow> fold_case (strip v))"

section \<open>Decimal numbers\<close>

text \<open>
  \<^verbatim>\<open>decimal.Decimal\<close> is the standard library's, not the repository's. It is modelled as the
  library documents it: a value is a sign, a coefficient and an exponent, or an infinity,
  or a quiet or signalling NaN with a payload. The exceptions the program can meet are
  values of \<open>exn\<close>.
\<close>

datatype decimal = Finite bool nat int | Infinity bool | NaN bool nat | SNaN bool nat

datatype exn = InvalidOperation | Overflow | URLError

definition isdigit :: "char \<Rightarrow> bool" where
  "isdigit c = (c \<in> set ''0123456789'')"

definition digit_val :: "char \<Rightarrow> nat" where
  "digit_val c = (case map_of (zip ''0123456789'' [0, 1, 2, 3, 4, 5, 6, 7, 8, 9]) c of
                    Some d \<Rightarrow> d | None \<Rightarrow> 0)"

definition digit_char :: "nat \<Rightarrow> char" where
  "digit_char d = ''0123456789'' ! (d mod 10)"

text \<open>\<^verbatim>\<open>int(s)\<close> on a text of digits (the empty text counts as 0) and \<^verbatim>\<open>str(n)\<close>.\<close>

definition nat_of_digits :: "string \<Rightarrow> nat" where
  "nat_of_digits s = foldl (\<lambda>n c. 10 * n + digit_val c) 0 s"

fun digits_of_nat :: "nat \<Rightarrow> string" where
  "digits_of_nat n =
     (if n < 10 then [digit_char n] else digits_of_nat (n div 10) @ [digit_char (n mod 10)])"

declare digits_of_nat.simps [simp del]

definition numdigits :: "nat \<Rightarrow> nat" where
  "numdigits n = length (digits_of_nat n)"

text \<open>
  The constructor \<^verbatim>\<open>Decimal(s)\<close>: surrounding whitespace is stripped, underscores are
  removed, letters are matched without regard to case, and the rest follows the grammar
  \<^verbatim>\<open>[sign] (digits [. digits] | . digits) [E [sign] digits] | Inf[inity] | [s]NaN digits\<close>.
  The conversion is exact, within the largest context of a 64-bit build; a text outside
  the grammar or outside that context raises \<^verbatim>\<open>InvalidOperation\<close>.
\<close>

definition MAX_EMAX :: int where
  "MAX_EMAX = 999999999999999999"

definition MIN_ETINY :: int where
  "MIN_ETINY = - 1999999999999999997"

definition parse_exponent :: "string \<Rightarrow> int option" where
  "parse_exponent u =
     (if u = [] then Some 0
      else if hd u = CHR ''e'' then
        (let t = tl u;
             neg = (t \<noteq> [] \<and> hd t = CHR ''-'');
             ds = (if t \<noteq> [] \<and> (hd t = CHR ''-'' \<or> hd t = CHR ''+'') then tl t else t)
         in if ds \<noteq> [] \<and> list_all isdigit ds
            then Some (if neg then - int (nat_of_digits ds) else int (nat_of_digits ds))
            else None)
      else None)"

definition parse_number :: "bool \<Rightarrow> string \<Rightarrow> exn + decimal" where
  "parse_number sg u =
     (let ip = takeWhile isdigit u;
          r1 = dropWhile isdigit u;
          dot = (r1 \<noteq> [] \<and> hd r1 = CHR ''.'');
          fp = (if dot then takeWhile isdigit (tl r1) else []);
          r2 = (if dot then dropWhile isdigit (tl r1) else r1)
      in if ip = [] \<and> fp = [] then Inl InvalidOperation
         else case parse_exponent r2 of
                None \<Rightarrow> Inl InvalidOperation
              | Some x \<Rightarrow>
                  (let c = nat_of_digits (ip @ fp);
                       e = x - int (length fp)
                   in if e < MIN_ETINY then Inl InvalidOperation
                      else if c = 0 \<and> MAX_EMAX < e then Inl InvalidOperation
                      else if c \<noteq> 0 \<and> MAX_EMAX < e + int (numdigits c) - 1
                        then Inl InvalidOperation
                      else Inr (Finite sg c e)))"

definition parse_body :: "bool \<Rightarrow> string \<Rightarrow> exn + decimal" where
  "parse_body sg u =
     (if u = ''inf'' \<or> u = ''infinity'' then Inr (Infinity sg)
      else if take 3 u = ''nan'' then
        (if list_all isdigit (drop 3 u) then Inr (NaN sg (nat_of_digits (drop 3 u)))
         else Inl InvalidOperation)
      else if take 4 u = ''snan'' then
        (if list_all isdigit (drop 4 u) then Inr (SNaN sg (nat_of_digits (drop 4 u)))
         else Inl InvalidOperation)
      else parse_number sg u)"

definition Decimal :: "string \<Rightarrow> exn + decimal" where
  "Decimal s =
     (let t = lower (filter (\<lambda>c. c \<noteq> CHR ''_'') (strip s))
      in if t \<noteq> [] \<and> hd t = CHR ''-'' then parse_body True (tl t)
         else if t \<noteq> [] \<and> hd t = CHR ''+'' then parse_body False (tl t)
         else parse_body False t)"

definition zero :: decimal where
  "zero = Finite False 0 0"

section \<open>The helpers of the program\<close>

text \<open>
  \<^verbatim>\<open>safe_decimal\<close>: the \<^verbatim>\<open>try\<close> catches \<^verbatim>\<open>InvalidOperation\<close> only; any other exception
  of the constructor would leave the function.
\<close>

definition replace_comma :: "string \<Rightarrow> string" where
  "replace_comma s = filter (\<lambda>c. c \<noteq> CHR '','') s"

definition safe_decimal :: "cell \<Rightarrow> exn + decimal" where
  "safe_decimal v =
     (let s = norm v
      in if s = [] then Inr zero
         else case Decimal (replace_comma s) of
                Inl InvalidOperation \<Rightarrow> Inr zero
              | Inl e \<Rightarrow> Inl e
              | Inr d \<Rightarrow> Inr d)"


section \<open>Decimal arithmetic in the default context\<close>

text \<open>
  The program never changes the context, so every addition runs in the default one:
  precision 28, rounding half-even, \<open>Emax = 999999\<close>, \<open>Emin = -999999\<close>, and the
  signals \<^verbatim>\<open>InvalidOperation\<close> and \<^verbatim>\<open>Overflow\<close> trapped, that is, raised as exceptions.
\<close>

definition prec :: int where
  "prec = 28"

definition Emax :: int where
  "Emax = 999999"

definition Etiny :: int where
  "Etiny = - 1000026"

definition Etop :: int where
  "Etop = 999972"

text \<open>\<open>c / m\<close> rounded to the nearest integer, a tie to the even one.\<close>

definition round_half_even :: "nat \<Rightarrow> nat \<Rightarrow> nat" where
  "round_half_even c m =
     (let q = c div m; r = c mod m
      in if m < 2 * r \<or> (2 * r = m \<and> odd q) then q + 1 else q)"

text \<open>Rounding a finite result into the context (\<^verbatim>\<open>Decimal._fix\<close>).\<close>

definition fix_ctx :: "bool \<Rightarrow> nat \<Rightarrow> int \<Rightarrow> exn + decimal" where
  "fix_ctx sg c e =
     (if c = 0 then Inr (Finite sg 0 (min (max e Etiny) Emax))
      else
        let exp_min0 = int (numdigits c) + e - prec
        in if Etop < exp_min0 then Inl Overflow
           else
             let exp_min = max exp_min0 Etiny
             in if e < exp_min then
                  (let q = round_half_even c (10 ^ nat (exp_min - e))
                   in if prec < int (numdigits q) then
                        (if Etop < exp_min + 1 then Inl Overflow
                         else Inr (Finite sg (q div 10) (exp_min + 1)))
                      else Inr (Finite sg q exp_min))
                else Inr (Finite sg c e))"

definition fix_nan :: "decimal \<Rightarrow> decimal" where
  "fix_nan d = (case d of NaN sg p \<Rightarrow> NaN sg (p mod 10 ^ 28) | _ \<Rightarrow> d)"

definition signed :: "bool \<Rightarrow> nat \<Rightarrow> int" where
  "signed sg c = (if sg then - int c else int c)"

fun dec_add :: "decimal \<Rightarrow> decimal \<Rightarrow> exn + decimal" where
  "dec_add (SNaN s p) y = Inl InvalidOperation"
| "dec_add x (SNaN s p) = Inl InvalidOperation"
| "dec_add (NaN s p) y = Inr (fix_nan (NaN s p))"
| "dec_add x (NaN s p) = Inr (fix_nan (NaN s p))"
| "dec_add (Infinity s1) (Infinity s2) =
     (if s1 \<noteq> s2 then Inl InvalidOperation else Inr (Infinity s1))"
| "dec_add (Infinity s1) y = Inr (Infinity s1)"
| "dec_add x (Infinity s2) = Inr (Infinity s2)"
| "dec_add (Finite s1 c1 e1) (Finite s2 c2 e2) =
     (let e = min e1 e2;
          v = signed s1 (c1 * 10 ^ nat (e1 - e)) + signed s2 (c2 * 10 ^ nat (e2 - e))
      in if c1 = 0 \<and> c2 = 0 then fix_ctx (s1 \<and> s2) 0 e
         else fix_ctx (v < 0) (nat \<bar>v\<bar>) e)"

text \<open>
  \<^verbatim>\<open>f"{d:.2f}"\<close>: the value rounded half-even to two places, with its sign, also on a
  zero; the special values print by name.
\<close>

definition sign_str :: "bool \<Rightarrow> string" where
  "sign_str sg = (if sg then ''-'' else [])"

definition cents2 :: "nat \<Rightarrow> int \<Rightarrow> nat" where
  "cents2 c e = (if - 2 \<le> e then c * 10 ^ nat (e + 2) else round_half_even c (10 ^ nat (- 2 - e)))"

definition fixed2 :: "nat \<Rightarrow> string" where
  "fixed2 q = digits_of_nat (q div 100) @ ''.'' @ [digit_char (q div 10), digit_char q]"

fun format_2f :: "decimal \<Rightarrow> string" where
  "format_2f (Finite sg c e) = sign_str sg @ fixed2 (cents2 c e)"
| "format_2f (Infinity sg) = sign_str sg @ ''Infinity''"
| "format_2f (NaN sg p) = sign_str sg @ ''NaN'' @ (if p = 0 then [] else digits_of_nat p)"
| "format_2f (SNaN sg p) = sign_str sg @ ''sNaN'' @ (if p = 0 then [] else digits_of_nat p)"

section \<open>Summing a field\<close>

text \<open>
  \<^verbatim>\<open>sum_field\<close>: per row, the first candidate column that is in the row with a non-empty
  normalised cell is parsed and added; an exception of the addition leaves the loop.
\<close>

fun pick_col :: "row \<Rightarrow> string list \<Rightarrow> cell option" where
  "pick_col r [] = None"
| "pick_col r (col # cols) =
     (case r col of
        None \<Rightarrow> pick_col r cols
      | Some v \<Rightarrow> (if norm v \<noteq> [] then Some v else pick_col r cols))"

fun sum_loop :: "decimal \<Rightarrow> row list \<Rightarrow> string list \<Rightarrow> exn + decimal" where
  "sum_loop tot [] cands = Inr tot"
| "sum_loop tot (r # rs) cands =
     (case pick_col r cands of
        None \<Rightarrow> sum_loop tot rs cands
      | Some v \<Rightarrow>
          (case safe_decimal v of
             Inl x \<Rightarrow> Inl x
           | Inr d \<Rightarrow>
               (case dec_add tot d of
                  Inl x \<Rightarrow> Inl x
                | Inr t \<Rightarrow> sum_loop t rs cands)))"

definition sum_field :: "row list \<Rightarrow> string list \<Rightarrow> exn + decimal" where
  "sum_field rows cands = sum_loop zero rows cands"


section \<open>Loading a source\<close>

text \<open>
  \<^verbatim>\<open>urllib.request.urlopen\<close> and \<^verbatim>\<open>csv.DictReader\<close> are the environment of the
  program: \<open>urlopen\<close> gives the decoded text behind a locator, or \<^term>\<open>None\<close> when it
  raises (the program has no handler around it, so the exception, here \<^term>\<open>URLError\<close>,
  leaves \<^verbatim>\<open>download_csv\<close>); \<open>DictReader\<close> gives the rows of a text, or \<^term>\<open>None\<close> when
  it raises \<^verbatim>\<open>csv.Error\<close>, which the program catches.
\<close>

record env =
  urlopen :: "string \<Rightarrow> string option"
  DictReader :: "string \<Rightarrow> row list option"

definition islinebreak :: "char \<Rightarrow> bool" where
  "islinebreak c = (c \<in> set [CHR 0x0A, CHR 0x0B, CHR 0x0C, CHR 0x0D,
       CHR 0x1C, CHR 0x1D, CHR 0x1E, CHR 0x85])"

text \<open>\<^verbatim>\<open>str.splitlines\<close>: a carriage return followed by a line feed is one break.\<close>

fun splitlines_acc :: "string \<Rightarrow> string \<Rightarrow> string list" where
  "splitlines_acc cur [] = (if cur = [] then [] else [rev cur])"
| "splitlines_acc cur [c] = (if islinebreak c then [rev cur] else [rev (c # cur)])"
| "splitlines_acc cur (c # d # cs) =
     (if c = CHR 0x0D \<and> d = CHR 0x0A then rev cur # splitlines_acc [] cs
      else if islinebreak c then rev cur # splitlines_acc [] (d # cs)
      else splitlines_acc (c # cur) (d # cs))"

definition splitlines :: "string \<Rightarrow> string list" where
  "splitlines text = splitlines_acc [] text"

text \<open>\<^verbatim>\<open>ln.split(",")\<close>: one field more than there are commas.\<close>

fun split_comma :: "string \<Rightarrow> string list" where
  "split_comma [] = [[]]"
| "split_comma (c # cs) =
     (if c = CHR '','' then [] # split_comma cs
      else (case split_comma cs of [] \<Rightarrow> [[c]] | w # ws \<Rightarrow> (c # w) # ws))"

definition fields :: "string \<Rightarrow> string list" where
  "fields ln = map strip (split_comma ln)"

text \<open>\<^verbatim>\<open>dict(zip(header, parts))\<close>: of two equal headers the later one stays.\<close>

definition dict_zip :: "string list \<Rightarrow> string list \<Rightarrow> row" where
  "dict_zip header parts = map_of (rev (zip header (map Some parts)))"

definition fallback_rows :: "string list \<Rightarrow> string list \<Rightarrow> row list" where
  "fallback_rows header lns =
     map (dict_zip header) (filter (\<lambda>parts. length parts = length header) (map fields lns))"

definition fallback_parse :: "string \<Rightarrow> row list" where
  "fallback_parse text =
     (let lns = filter (\<lambda>ln. strip ln \<noteq> []) (splitlines text)
      in case lns of [] \<Rightarrow> [] | h # rest \<Rightarrow> fallback_rows (fields h) rest)"

definition download_csv :: "env \<Rightarrow> string \<Rightarrow> exn + row list" where
  "download_csv ev url =
     (if url = [] then Inr []
      else case urlopen ev url of
             None \<Rightarrow> Inl URLError
           | Some text \<Rightarrow>
               (case DictReader ev text of
                  Some rows \<Rightarrow> Inr rows
                | None \<Rightarrow> Inr (fallback_parse text)))"

section \<open>Indices\<close>

text \<open>
  A \<^verbatim>\<open>Dict[str, List[row]]\<close> keeps its keys in insertion order; it is an association list
  with one entry per key. \<^verbatim>\<open>d.setdefault(k, []).append(r)\<close> appends to the entry of
  \<open>k\<close>, or adds the entry at the end.
\<close>

type_synonym index = "(string \<times> row list) list"

fun setdefault_append :: "string \<Rightarrow> row \<Rightarrow> index \<Rightarrow> index" where
  "setdefault_append k r [] = [(k, [r])]"
| "setdefault_append k r ((k', rs) # idx) =
     (if k = k' then (k', rs @ [r]) # idx else (k', rs) # setdefault_append k r idx)"

definition index_get :: "index \<Rightarrow> string \<Rightarrow> row list" where
  "index_get idx k = (case map_of idx k of None \<Rightarrow> [] | Some rs \<Rightarrow> rs)"

definition keys :: "index \<Rightarrow> string list" where
  "keys idx = map fst idx"

definition ledger_step :: "row \<Rightarrow> index \<Rightarrow> index" where
  "ledger_step r idx =
     (let k = ledger_invoice_key r in if k = [] then idx else setdefault_append k r idx)"

definition build_ledger_by_invnum :: "row list \<Rightarrow> index" where
  "build_ledger_by_invnum ledger_rows = fold ledger_step ledger_rows []"

definition invoice_step :: "row \<Rightarrow> index \<times> index \<Rightarrow> index \<times> index" where
  "invoice_step r st =
     (let g = invoice_guid_key r; n = invoice_number_key r
      in ((if g \<noteq> [] then setdefault_append g r (fst st) else fst st),
          (if n \<noteq> [] then setdefault_append n r (snd st) else snd st)))"

definition build_invoice_indices :: "row list \<Rightarrow> index \<times> index" where
  "build_invoice_indices invoice_rows = fold invoice_step invoice_rows ([], [])"

definition manifest_step :: "row \<Rightarrow> index \<Rightarrow> index" where
  "manifest_step r idx =
     (let g = manifest_guid_key r in if g = [] then idx else setdefault_append g r idx)"

definition build_manifest_by_guid :: "row list \<Rightarrow> index" where
  "build_manifest_by_guid manifest_rows = fold manifest_step manifest_rows []"

section \<open>Master records\<close>

record master =
  Year :: string
  Invoice_GUID :: string
  Invoice_Number :: string
  Invoice_Type :: string
  Invoice_Date :: string
  Invoice_Contact :: string
  Invoice_Description :: string
  Invoice_Currency :: string
  Invoice_Line_Count :: nat
  Invoice_Line_Total :: string
  Invoice_Tax_Total :: string
  In_Ledger :: string
  Ledger_Row_Count :: nat
  Ledger_Gross_AUD :: string
  Ledger_Net_AUD :: string
  Ledger_GST_AUD :: string
  In_Manifest :: string
  Manifest_Row_Count :: nat
  PDF_Present :: string
  PDF_Count :: nat
  PDF_Paths :: string

definition bind_exn :: "exn + 'a \<Rightarrow> ('a \<Rightarrow> exn + 'b) \<Rightarrow> exn + 'b" where
  "bind_exn m f = (case m of Inl x \<Rightarrow> Inl x | Inr v \<Rightarrow> f v)"

fun map_exn :: "('a \<Rightarrow> exn + 'b) \<Rightarrow> 'a list \<Rightarrow> exn + 'b list" where
  "map_exn f [] = Inr []"
| "map_exn f (x # xs) =
     bind_exn (f x) (\<lambda>y. bind_exn (map_exn f xs) (\<lambda>ys. Inr (y # ys)))"

text \<open>\<^verbatim>\<open>rows[0] if rows else {}\<close>\<close>

definition first_row :: "row list \<Rightarrow> row" where
  "first_row rs = (case rs of [] \<Rightarrow> Map.empty | r # _ \<Rightarrow> r)"

definition yes_no :: "bool \<Rightarrow> string" where
  "yes_no b = (if b then ''Y'' else ''N'')"

fun join :: "string \<Rightarrow> string list \<Rightarrow> string" where
  "join sep [] = []"
| "join sep [x] = x"
| "join sep (x # y # xs) = x @ sep @ join sep (y # xs)"

text \<open>\<^verbatim>\<open>sorted(set(...))\<close> of texts: without duplicates, ascending by code points.\<close>

definition sorted_set :: "string list \<Rightarrow> string list" where
  "sorted_set xs = sort (remdups xs)"

definition gross_cols :: "string list" where
  "gross_cols = [''Gross (AUD)'', ''Gross'', ''Gross (Source)'']"

definition net_cols :: "string list" where
  "net_cols = [''Net (AUD)'', ''Net'', ''Net (Source)'']"

definition gst_cols :: "string list" where
  "gst_cols = [''GST (AUD)'', ''GST'', ''GST (Source)'']"

text \<open>The ledger rows joined to a GUID through the invoice number of its first row.\<close>

definition ledger_rows_for_invoice :: "index \<Rightarrow> string \<Rightarrow> row list" where
  "ledger_rows_for_invoice ledger_by_invnum inv_num =
     (if inv_num \<noteq> [] then index_get ledger_by_invnum inv_num else [])"

definition pdf_paths_of :: "row list \<Rightarrow> string list" where
  "pdf_paths_of man_rows =
     sorted_set (filter (\<lambda>p. p \<noteq> []) (map manifest_pdf_path man_rows))"

text \<open>The body of the loop of pass 1, for one GUID.\<close>

definition guid_record :: "string \<Rightarrow> index \<Rightarrow> index \<Rightarrow> index \<Rightarrow> string \<Rightarrow> exn + master" where
  "guid_record year ledger_by_invnum invoice_by_guid manifest_by_guid guid =
     (let inv_rows = index_get invoice_by_guid guid;
          man_rows = index_get manifest_by_guid guid;
          first_inv = first_row inv_rows;
          inv_num = invoice_number_key first_inv;
          l_rows = ledger_rows_for_invoice ledger_by_invnum inv_num;
          pdf_paths = pdf_paths_of man_rows
      in bind_exn (sum_field inv_rows
                     [''Line amount'', ''Line Amount'', ''Line total'', ''Line Total''])
           (\<lambda>inv_line_total.
         bind_exn (sum_field inv_rows [''Tax amount'', ''Tax Amount'', ''GST'', ''GST (AUD)''])
           (\<lambda>inv_tax_total.
         bind_exn (sum_field l_rows gross_cols) (\<lambda>ledger_gross.
         bind_exn (sum_field l_rows net_cols) (\<lambda>ledger_net.
         bind_exn (sum_field l_rows gst_cols) (\<lambda>ledger_gst.
           Inr \<lparr> Year = year,
                 Invoice_GUID = guid,
                 Invoice_Number = inv_num,
                 Invoice_Type = norm (get first_inv ''Type''),
                 Invoice_Date = norm (get first_inv ''Date''),
                 Invoice_Contact = norm (get first_inv ''Contact''),
                 Invoice_Description = norm (get first_inv ''Description''),
                 Invoice_Currency = norm (get first_inv ''Currency''),
                 Invoice_Line_Count = length inv_rows,
                 Invoice_Line_Total = format_2f inv_line_total,
                 Invoice_Tax_Total = format_2f inv_tax_total,
                 In_Ledger = yes_no (l_rows \<noteq> []),
                 Ledger_Row_Count = length l_rows,
                 Ledger_Gross_AUD = format_2f ledger_gross,
                 Ledger_Net_AUD = format_2f ledger_net,
                 Ledger_GST_AUD = format_2f ledger_gst,
                 In_Manifest = yes_no (man_rows \<noteq> []),
                 Manifest_Row_Count = length man_rows,
                 PDF_Present = yes_no (pdf_paths \<noteq> []),
                 PDF_Count = length pdf_paths,
                 PDF_Paths = join ''; '' pdf_paths \<rparr>))))))"

text \<open>The body of the loop of pass 2, for one invoice number of the ledger.\<close>

definition ledger_only_record :: "string \<Rightarrow> index \<Rightarrow> string \<Rightarrow> exn + master" where
  "ledger_only_record year ledger_by_invnum inv_num =
     (let l_rows = index_get ledger_by_invnum inv_num;
          first_l = first_row l_rows
      in bind_exn (sum_field l_rows gross_cols) (\<lambda>ledger_gross.
         bind_exn (sum_field l_rows net_cols) (\<lambda>ledger_net.
         bind_exn (sum_field l_rows gst_cols) (\<lambda>ledger_gst.
           Inr \<lparr> Year = year,
                 Invoice_GUID = [],
                 Invoice_Number = inv_num,
                 Invoice_Type = [],
                 Invoice_Date = [],
                 Invoice_Contact = norm (get first_l ''Contact''),
                 Invoice_Description = norm (get first_l ''Description''),
                 Invoice_Currency = norm (get first_l ''Currency''),
                 Invoice_Line_Count = 0,
                 Invoice_Line_Total = ''0.00'',
                 Invoice_Tax_Total = ''0.00'',
                 In_Ledger = ''Y'',
                 Ledger_Row_Count = length l_rows,
                 Ledger_Gross_AUD = format_2f ledger_gross,
                 Ledger_Net_AUD = format_2f ledger_net,
                 Ledger_GST_AUD = format_2f ledger_gst,
                 In_Manifest = ''N'',
                 Manifest_Row_Count = 0,
                 PDF_Present = ''N'',
                 PDF_Count = 0,
                 PDF_Paths = [] \<rparr>))))"

section \<open>The two passes\<close>

definition guid_keys :: "index \<Rightarrow> index \<Rightarrow> string list" where
  "guid_keys invoice_by_guid manifest_by_guid =
     sorted_set (keys invoice_by_guid @ keys manifest_by_guid)"

definition invnums_from_guid :: "index \<Rightarrow> string list" where
  "invnums_from_guid invoice_by_guid =
     map (\<lambda>kv. invoice_number_key (first_row (snd kv)))
         (filter (\<lambda>kv. snd kv \<noteq> []) invoice_by_guid)"

definition ledger_only_invnums :: "index \<Rightarrow> index \<Rightarrow> string list" where
  "ledger_only_invnums ledger_by_invnum invoice_by_guid =
     sorted_set (filter (\<lambda>k. k \<notin> set (invnums_from_guid invoice_by_guid))
                        (keys ledger_by_invnum))"

definition pass1 :: "string \<Rightarrow> index \<Rightarrow> index \<Rightarrow> index \<Rightarrow> exn + master list" where
  "pass1 year ledger_by_invnum invoice_by_guid manifest_by_guid =
     map_exn (guid_record year ledger_by_invnum invoice_by_guid manifest_by_guid)
             (guid_keys invoice_by_guid manifest_by_guid)"

definition pass2 :: "string \<Rightarrow> index \<Rightarrow> index \<Rightarrow> exn + master list" where
  "pass2 year ledger_by_invnum invoice_by_guid =
     map_exn (ledger_only_record year ledger_by_invnum)
             (ledger_only_invnums ledger_by_invnum invoice_by_guid)"

text \<open>
  Steps 2 to 4 of \<^verbatim>\<open>main\<close>: from the three row lists to \<^verbatim>\<open>master_rows\<close>, the records of
  pass 1 followed by those of pass 2.
\<close>

definition reconcile :: "string \<Rightarrow> row list \<Rightarrow> row list \<Rightarrow> row list \<Rightarrow> exn + master list" where
  "reconcile year ledger_rows invoice_rows manifest_rows =
     (let ledger_by_invnum = build_ledger_by_invnum ledger_rows;
          invoice_by_guid = fst (build_invoice_indices invoice_rows);
          manifest_by_guid = build_manifest_by_guid manifest_rows
      in bind_exn (pass1 year ledger_by_invnum invoice_by_guid manifest_by_guid) (\<lambda>m1.
         bind_exn (pass2 year ledger_by_invnum invoice_by_guid) (\<lambda>m2.
           Inr (m1 @ m2))))"

section \<open>The run\<close>

text \<open>
  The actor input is a mapping like a row (a value that is not a text is taken by its
  \<^verbatim>\<open>str\<close>). The run ends in one of three ways: it returns early without writing
  anything, an exception leaves \<^verbatim>\<open>main\<close>, or it stores the CSV (the file name and the
  master rows written under the fixed header) and pushes the summary.
\<close>

record summary =
  s_year :: string
  s_ledger_rows :: nat
  s_invoice_rows :: nat
  s_manifest_rows :: nat
  s_guid_keys :: nat
  s_ledger_only_invoice_numbers :: nat
  s_master_rows :: nat
  s_kv_filename :: string

record artifacts =
  kv_filename :: string
  csv_rows :: "master list"
  pushed :: summary

datatype outcome = Halted | Raised exn | Completed artifacts

definition emit :: "string \<Rightarrow> row list \<Rightarrow> row list \<Rightarrow> row list \<Rightarrow> master list \<Rightarrow> artifacts" where
  "emit year ledger_rows invoice_rows manifest_rows master_rows =
     (let kv = ''ledger_master_'' @ (if year \<noteq> [] then year else ''unknown'') @ ''.csv''
      in \<lparr> kv_filename = kv,
           csv_rows = master_rows,
           pushed = \<lparr> s_year = year,
                      s_ledger_rows = length ledger_rows,
                      s_invoice_rows = length invoice_rows,
                      s_manifest_rows = length manifest_rows,
                      s_guid_keys =
                        length (guid_keys (fst (build_invoice_indices invoice_rows))
                                          (build_manifest_by_guid manifest_rows)),
                      s_ledger_only_invoice_numbers =
                        length (ledger_only_invnums (build_ledger_by_invnum ledger_rows)
                                                    (fst (build_invoice_indices invoice_rows))),
                      s_master_rows = length master_rows,
                      s_kv_filename = kv \<rparr> \<rparr>)"

definition main :: "env \<Rightarrow> row \<Rightarrow> outcome" where
  "main ev actor_input =
     (let year = norm (get actor_input ''Year'');
          ledger_url = norm (get actor_input ''LedgerUrl'');
          invoice_url = norm (get actor_input ''InvoiceUrl'');
          manifest_url = norm (get actor_input ''ManifestUrl'')
      in if ledger_url = [] \<or> invoice_url = [] \<or> manifest_url = [] then Halted
         else case download_csv ev ledger_url of
           Inl x \<Rightarrow> Raised x
         | Inr ledger_rows \<Rightarrow>
         (case download_csv ev invoice_url of
           Inl x \<Rightarrow> Raised x
         | Inr invoice_rows \<Rightarrow>
         (case download_csv ev manifest_url of
           Inl x \<Rightarrow> Raised x
         | Inr manifest_rows \<Rightarrow>
             if ledger_rows = [] \<and> invoice_rows = [] \<and> manifest_rows = [] then Halted
             else (case reconcile year ledger_rows invoice_rows manifest_rows of
                     Inl x \<Rightarrow> Raised x
                   | Inr master_rows \<Rightarrow>
                       Completed (emit year ledger_rows invoice_rows manifest_rows
                                    master_rows)))))"

section \<open>Notions for the properties\<close>

text \<open>
  The three index loops of \<^verbatim>\<open>main\<close> are one loop with three key extractors; an index
  they build has distinct, non-empty keys and no empty group.
\<close>

definition gen_step :: "(row \<Rightarrow> string) \<Rightarrow> row \<Rightarrow> index \<Rightarrow> index" where
  "gen_step key r idx = (let k = key r in if k = [] then idx else setdefault_append k r idx)"

definition wf_index :: "index \<Rightarrow> bool" where
  "wf_index idx = (distinct (map fst idx) \<and> (\<forall>kv\<in>set idx. fst kv \<noteq> [] \<and> snd kv \<noteq> []))"

section \<open>Properties\<close>

subsection \<open>Trimming and the key extractors\<close>

lemma strip_Nil: "strip [] = []"
  by (simp add: strip_def rstrip_def lstrip_def)

lemma norm_None: "norm None = []"
  by (simp add: norm_def)

lemma falsy_norm: "\<not> truthy c \<Longrightarrow> norm c = []"
  by (cases c) (auto simp: truthy_def norm_def strip_Nil)

lemma first_nonempty_get:
  "first_nonempty r (h # hs) = (if truthy (get r h) then get r h else first_nonempty r hs)"
  by (auto simp: truthy_def get_def split: option.splits)

lemma spec_extract_norm:
  "f [] = [] \<Longrightarrow> spec_extract f hs r = f (norm (first_nonempty r hs))"
  by (simp add: spec_extract_def norm_def split: option.splits)

lemma upper_Nil: "upper [] = []" by (simp add: upper_def)
lemma lower_Nil: "lower [] = []" by (simp add: lower_def)

lemma extract3:
  "f [] = [] \<Longrightarrow>
   f (norm (py_or (py_or (get r a) (get r b)) (get r c))) = spec_extract f [a, b, c] r"
  by (simp add: spec_extract_norm first_nonempty_get py_or_def falsy_norm norm_None
      del: first_nonempty.simps(2))

lemma extract4:
  "f [] = [] \<Longrightarrow>
   f (norm (py_or (py_or (py_or (get r a) (get r b)) (get r c)) (get r d)))
     = spec_extract f [a, b, c, d] r"
  by (simp add: spec_extract_norm first_nonempty_get py_or_def falsy_norm norm_None
      del: first_nonempty.simps(2))

text \<open>
  Claim C5. Each of the four key extractors returns the trimmed, case-folded cell of the
  first header of its candidate list that the row has with a non-empty value (non-empty
  as Python's \<^verbatim>\<open>or\<close> tests it, before trimming), and the empty text when no candidate
  has one. The extractors are total functions of the row.
\<close>

theorem key_extractors_first_nonempty:
  "ledger_invoice_key r = spec_extract upper [''Invoice Number'', ''Invoice number'', ''Invoice''] r
   \<and> invoice_guid_key r = spec_extract lower [''Invoice ID'', ''InvoiceId'', ''Invoice_GUID''] r
   \<and> invoice_number_key r
       = spec_extract upper [''Xero number'', ''Invoice Number'', ''Invoice number'', ''Invoice''] r
   \<and> manifest_guid_key r = spec_extract lower [''Invoice ID'', ''InvoiceId'', ''Invoice_GUID''] r"
  unfolding ledger_invoice_key_def invoice_guid_key_def invoice_number_key_def
    manifest_guid_key_def
  by (simp only: extract3 [of upper, OF upper_Nil] extract3 [of lower, OF lower_Nil]
      extract4 [of upper, OF upper_Nil])

subsection \<open>Parsing amounts\<close>


lemma lstrip_pad: "\<forall>c\<in>set a. isspace c \<Longrightarrow> lstrip (a @ u) = lstrip u"
  by (simp add: lstrip_def dropWhile_append2)

lemma rstrip_pad: "\<forall>c\<in>set b. isspace c \<Longrightarrow> rstrip (u @ b) = rstrip u"
  using dropWhile_append2 [of "rev b" isspace "rev u"] by (simp add: rstrip_def)

lemma lstrip_app_right:
  "\<forall>c\<in>set b. isspace c \<Longrightarrow> rstrip (lstrip (t @ b)) = rstrip (lstrip t)"
proof (cases "\<forall>c\<in>set t. isspace c")
  case True
  assume "\<forall>c\<in>set b. isspace c"
  with True have "lstrip (t @ b) = []" "lstrip t = []"
    by (auto simp: lstrip_def dropWhile_eq_Nil_conv)
  then show ?thesis by simp
next
  case False
  assume b: "\<forall>c\<in>set b. isspace c"
  from False obtain x where "x \<in> set t" "\<not> isspace x" by blast
  then have "lstrip (t @ b) = lstrip t @ b"
    by (simp add: lstrip_def dropWhile_append1)
  with b show ?thesis by (simp add: rstrip_pad)
qed

lemma strip_pad:
  "\<forall>c\<in>set a. isspace c \<Longrightarrow> \<forall>c\<in>set b. isspace c \<Longrightarrow> strip (a @ t @ b) = strip t"
  by (simp add: strip_def lstrip_pad lstrip_app_right)

lemma strip_decomp:
  "\<exists>a b. s = a @ strip s @ b \<and> (\<forall>c\<in>set a. isspace c) \<and> (\<forall>c\<in>set b. isspace c)"
proof -
  let ?a = "takeWhile isspace s"
  let ?u = "lstrip s"
  let ?b = "rev (takeWhile isspace (rev ?u))"
  have 1: "s = ?a @ ?u" by (simp add: lstrip_def)
  have "?u = rev (dropWhile isspace (rev ?u)) @ rev (takeWhile isspace (rev ?u))"
    by (metis rev_append rev_rev_ident takeWhile_dropWhile_id)
  then have 2: "?u = strip s @ ?b" by (simp only: strip_def rstrip_def)
  have 3: "\<forall>c\<in>set ?a. isspace c" by (auto dest: set_takeWhileD)
  have 4: "\<forall>c\<in>set ?b. isspace c" by (auto dest: set_takeWhileD)
  from 2 have "?a @ ?u = ?a @ strip s @ ?b" by (rule arg_cong)
  with 1 have "s = ?a @ strip s @ ?b" by (rule trans)
  with 3 4 show ?thesis by blast
qed

lemma strip_idem: "strip (strip s) = strip s"
proof -
  obtain a b where d: "s = a @ strip s @ b" and a: "\<forall>c\<in>set a. isspace c"
    and b: "\<forall>c\<in>set b. isspace c"
    using strip_decomp by blast
  from d have "strip s = strip (a @ strip s @ b)" by (rule arg_cong)
  also have "\<dots> = strip (strip s)" by (rule strip_pad [OF a b])
  finally show ?thesis by (rule sym)
qed

lemma set_strip: "set (strip s) \<subseteq> set s"
  by (auto simp: strip_def rstrip_def lstrip_def dest!: set_dropWhileD)

lemma isspace_not_comma: "isspace c \<Longrightarrow> c \<noteq> CHR '',''"
  by (auto simp: isspace_def)

lemma strip_replace_comma: "strip (replace_comma (strip s)) = strip (replace_comma s)"
proof -
  obtain a b where d: "s = a @ strip s @ b" and a: "\<forall>c\<in>set a. isspace c"
    and b: "\<forall>c\<in>set b. isspace c"
    using strip_decomp by blast
  have fa: "replace_comma a = a" using a by (auto simp: replace_comma_def isspace_not_comma)
  have fb: "replace_comma b = b" using b by (auto simp: replace_comma_def isspace_not_comma)
  from d have "replace_comma s = replace_comma (a @ strip s @ b)" by (rule arg_cong)
  also have "\<dots> = a @ replace_comma (strip s) @ b"
    using fa fb by (simp add: replace_comma_def)
  finally show ?thesis using strip_pad [OF a b] by simp
qed

lemma filter_strip_id: "filter P (strip (filter P s)) = strip (filter P s)"
proof -
  have "set (strip (filter P s)) \<subseteq> set (filter P s)" by (rule set_strip)
  then have "\<forall>x\<in>set (strip (filter P s)). P x" by auto
  then show ?thesis by (simp only: filter_id_conv)
qed

lemma replace_comma_strip_id:
  "replace_comma (strip (replace_comma s)) = strip (replace_comma s)"
  unfolding replace_comma_def by (rule filter_strip_id)

lemma Decimal_strip_cong: "strip u = strip u' \<Longrightarrow> Decimal u = Decimal u'"
  by (simp add: Decimal_def)

lemma parse_body_Nil: "parse_body sg [] = Inl InvalidOperation"
  by (simp add: parse_body_def parse_number_def)

lemma Decimal_blank: "strip u = [] \<Longrightarrow> Decimal u = Inl InvalidOperation"
  by (simp add: Decimal_def lower_def parse_body_Nil)

lemma strip_blank: "strip s = [] \<Longrightarrow> strip (replace_comma s) = []"
  using strip_replace_comma [of s] by (simp add: replace_comma_def strip_Nil)

text \<open>
  Claim C7. For every text, \<^verbatim>\<open>safe_decimal\<close> gives the same result on the text and on
  the text with its thousands separators removed.
\<close>

theorem safe_decimal_separators:
  "safe_decimal (Some s) = safe_decimal (Some (replace_comma s))"
proof (cases "strip s = []")
  case True
  then show ?thesis by (simp add: safe_decimal_def norm_def strip_blank)
next
  case False
  show ?thesis
  proof (cases "strip (replace_comma s) = []")
    case True
    then have "Decimal (replace_comma (strip s)) = Inl InvalidOperation"
      by (simp add: Decimal_blank strip_replace_comma)
    with True False show ?thesis by (simp add: safe_decimal_def norm_def)
  next
    case nb: False
    have "Decimal (replace_comma (strip s)) = Decimal (replace_comma (strip (replace_comma s)))"
      by (rule Decimal_strip_cong) (simp add: strip_replace_comma replace_comma_strip_id strip_idem)
    with False nb show ?thesis by (simp add: safe_decimal_def norm_def)
  qed
qed

lemma parse_number_raises: "parse_number sg u = Inl x \<Longrightarrow> x = InvalidOperation"
  unfolding parse_number_def Let_def
  by (simp split: if_splits option.splits)

lemma parse_body_raises: "parse_body sg u = Inl x \<Longrightarrow> x = InvalidOperation"
  unfolding parse_body_def
  by (simp split: if_splits add: parse_number_raises)

lemma Decimal_raises: "Decimal s = Inl x \<Longrightarrow> x = InvalidOperation"
  unfolding Decimal_def Let_def
  by (simp split: if_splits add: parse_body_raises)


text \<open>
  Claim C6. \<^verbatim>\<open>safe_decimal\<close> never raises: it returns a value on every cell; the value
  is the exact parse of the normalised, separator-free text when that parse succeeds, and
  zero for \<^verbatim>\<open>None\<close>, for a blank text and for a text the constructor rejects.
\<close>

theorem safe_decimal_never_raises:
  "(\<exists>d. safe_decimal v = Inr d)
   \<and> safe_decimal None = Inr zero
   \<and> (\<forall>d. norm v \<noteq> [] \<and> Decimal (replace_comma (norm v)) = Inr d \<longrightarrow> safe_decimal v = Inr d)
   \<and> (norm v = [] \<or> (\<exists>x. Decimal (replace_comma (norm v)) = Inl x)
        \<longrightarrow> safe_decimal v = Inr zero)"
proof -
  have none: "safe_decimal None = Inr zero"
    by (simp add: safe_decimal_def norm_def)
  have blank: "norm v = [] \<Longrightarrow> safe_decimal v = Inr zero"
    by (simp add: safe_decimal_def Let_def)
  have ok: "\<And>d. norm v \<noteq> [] \<Longrightarrow> Decimal (replace_comma (norm v)) = Inr d
              \<Longrightarrow> safe_decimal v = Inr d"
    by (simp add: safe_decimal_def Let_def)
  have bad: "\<And>x. Decimal (replace_comma (norm v)) = Inl x \<Longrightarrow> safe_decimal v = Inr zero"
  proof -
    fix x assume a: "Decimal (replace_comma (norm v)) = Inl x"
    then have "x = InvalidOperation" by (rule Decimal_raises)
    with a show "safe_decimal v = Inr zero" by (simp add: safe_decimal_def Let_def)
  qed
  have total: "\<exists>d. safe_decimal v = Inr d"
  proof (cases "norm v = []")
    case True
    then show ?thesis using blank by blast
  next
    case False
    show ?thesis
    proof (cases "Decimal (replace_comma (norm v))")
      case (Inl x)
      then show ?thesis using bad by blast
    next
      case (Inr d)
      with False show ?thesis using ok by blast
    qed
  qed
  from none blank ok bad total show ?thesis by blast
qed

lemmas text_eval = norm_def strip_def lstrip_def rstrip_def isspace_def replace_comma_def

lemmas Decimal_eval = Decimal_def strip_def lstrip_def rstrip_def isspace_def lower_def
  lower_char_def parse_body_def parse_number_def isdigit_def parse_exponent_def
  nat_of_digits_def digit_val_def MIN_ETINY_def MAX_EMAX_def numdigits_def
  digits_of_nat.simps Let_def

theorem safe_decimal_never_raises_witness:
  "safe_decimal (Some ''1,234.50'') = Inr (Finite False 123450 (- 2))
   \<and> safe_decimal (Some ''N/A'') = Inr zero"
proof -
  have n1: "replace_comma (norm (Some ''1,234.50'')) = ''1234.50''"
    and n1': "norm (Some ''1,234.50'') \<noteq> []"
    by (simp_all add: text_eval)
  have d1: "Decimal ''1234.50'' = Inr (Finite False 123450 (- 2))"
    by (simp add: Decimal_eval)
  have n2: "replace_comma (norm (Some ''N/A'')) = ''N/A''"
    by (simp add: text_eval)
  have d2: "Decimal ''N/A'' = Inl InvalidOperation"
    by (simp add: Decimal_eval)
  from safe_decimal_never_raises [of "Some ''1,234.50''"] n1 n1' d1
  have a: "safe_decimal (Some ''1,234.50'') = Inr (Finite False 123450 (- 2))"
    by simp
  from safe_decimal_never_raises [of "Some ''N/A''"] n2 d2
  have b: "safe_decimal (Some ''N/A'') = Inr zero"
    by simp
  from a b show ?thesis by (rule conjI)
qed

subsection \<open>Indices\<close>

lemma keys_setdefault_append:
  "set (keys (setdefault_append k r idx)) = insert k (set (keys idx))"
proof (induction idx)
  case Nil
  show ?case by (simp add: keys_def)
next
  case (Cons a idx)
  obtain k' rs where a: "a = (k', rs)" by (cases a)
  from Cons show ?case unfolding a by (simp add: keys_def insert_commute)
qed

lemma distinct_setdefault_append:
  "distinct (map fst idx) \<Longrightarrow> distinct (map fst (setdefault_append k r idx))"
proof (induction idx)
  case Nil
  show ?case by simp
next
  case (Cons a idx)
  obtain k' rs where a: "a = (k', rs)" by (cases a)
  have ks: "fst ` set (setdefault_append k r idx) = insert k (fst ` set idx)"
    using keys_setdefault_append [of k r idx] by (simp add: keys_def)
  from Cons show ?case unfolding a by (simp add: ks)
qed

lemma groups_setdefault_append:
  "\<forall>kv\<in>set idx. fst kv \<noteq> [] \<and> snd kv \<noteq> [] \<Longrightarrow> k \<noteq> [] \<Longrightarrow>
   \<forall>kv\<in>set (setdefault_append k r idx). fst kv \<noteq> [] \<and> snd kv \<noteq> []"
proof (induction idx)
  case Nil
  then show ?case by simp
next
  case (Cons a idx)
  obtain k' rs where a: "a = (k', rs)" by (cases a)
  from Cons show ?case unfolding a by simp
qed

lemma wf_setdefault_append:
  "wf_index idx \<Longrightarrow> k \<noteq> [] \<Longrightarrow> wf_index (setdefault_append k r idx)"
  unfolding wf_index_def
  using distinct_setdefault_append groups_setdefault_append by blast

lemma index_get_setdefault_append:
  "index_get (setdefault_append k r idx) k' =
     (if k' = k then index_get idx k @ [r] else index_get idx k')"
  by (induction idx) (auto simp: index_get_def)

lemma wf_gen_step: "wf_index idx \<Longrightarrow> wf_index (gen_step key r idx)"
  by (simp add: gen_step_def Let_def wf_setdefault_append)

lemma wf_fold_gen_step: "wf_index idx \<Longrightarrow> wf_index (fold (gen_step key) rows idx)"
  by (induction rows arbitrary: idx) (simp_all add: wf_gen_step)

lemma keys_fold_gen_step:
  "set (keys (fold (gen_step key) rows idx)) =
     set (keys idx) \<union> {k. k \<noteq> [] \<and> k \<in> key ` set rows}"
proof (induction rows arbitrary: idx)
  case Nil
  show ?case by simp
next
  case (Cons r rows)
  have "set (keys (gen_step key r idx)) = set (keys idx) \<union> {k. k \<noteq> [] \<and> k = key r}"
    by (auto simp: gen_step_def Let_def keys_setdefault_append)
  with Cons [of "gen_step key r idx"] show ?case by auto
qed

lemma index_get_fold_gen_step:
  "k \<noteq> [] \<Longrightarrow> index_get (fold (gen_step key) rows idx) k =
     index_get idx k @ filter (\<lambda>r. key r = k) rows"
proof (induction rows arbitrary: idx)
  case Nil
  show ?case by simp
next
  case (Cons r rows)
  have "index_get (gen_step key r idx) k = index_get idx k @ filter (\<lambda>r. key r = k) [r]"
    using Cons.prems by (auto simp: gen_step_def Let_def index_get_setdefault_append)
  with Cons.IH [of "gen_step key r idx"] Cons.prems show ?case by simp
qed

lemma wf_Nil: "wf_index []"
  by (simp add: wf_index_def)

lemma index_get_Nil: "index_get [] k = []"
  by (simp add: index_get_def)

lemma ledger_step_gen: "ledger_step = gen_step ledger_invoice_key"
  by (intro ext) (simp add: ledger_step_def gen_step_def)

lemma manifest_step_gen: "manifest_step = gen_step manifest_guid_key"
  by (intro ext) (simp add: manifest_step_def gen_step_def)

lemma fst_fold_invoice_step:
  "fst (fold invoice_step rows st) = fold (gen_step invoice_guid_key) rows (fst st)"
  by (induction rows arbitrary: st) (simp_all add: invoice_step_def gen_step_def Let_def)

lemma invoice_by_guid_gen:
  "fst (build_invoice_indices rows) = fold (gen_step invoice_guid_key) rows []"
  by (simp add: build_invoice_indices_def fst_fold_invoice_step)

end
